theory Spec2Isabelle
  imports Main "HOL-Library.Sublist"
begin

section \<open>Fitness tracker: running, sports walking, swimming\<close>

text \<open>
  A shallow embedding of \<^verbatim>\<open>homework.py\<close>. The numbers of the program are Python's:
  an attribute holds an \<^verbatim>\<open>int\<close> of any size or a \<^verbatim>\<open>float\<close>, the two types the
  annotations name, and every operator of the source is the operator of the
  interpreter: the product of two ints is exact, an int that meets a float is
  converted first (\<^verbatim>\<open>OverflowError\<close> when it is too large), a float operation is the
  IEEE 754 binary64 operation rounded to the nearest double, ties to even, and
  \<^verbatim>\<open>/\<close> raises \<^verbatim>\<open>ZeroDivisionError\<close> on a zero divisor. The one operation whose
  result the language leaves to the platform, the \<^verbatim>\<open>pow\<close> of the C library behind
  \<^verbatim>\<open>** 2\<close>, is a parameter of the methods that reach it. The formatting of the
  message, \<^verbatim>\<open>InfoMessage.get_message\<close>, and the script at the end of the file are not
  part of the model.
\<close>

subsection \<open>Exceptions\<close>

datatype py_error =
    ZeroDivisionError
  | OverflowError
  | NotImplementedError string
  | ValueError string
  | TypeError

text \<open>Evaluation of an expression stops at the first operand that raises.\<close>

definition py_then :: "py_error + 'a \<Rightarrow> ('a \<Rightarrow> py_error + 'b) \<Rightarrow> py_error + 'b" where
  "py_then r f = (case r of Inl e \<Rightarrow> Inl e | Inr v \<Rightarrow> f v)"

subsection \<open>Binary64 floats\<close>

text \<open>
  \<open>Finite s m e\<close> is the double \<open>(-1)\<^sup>s * m * 2\<^sup>e\<close>. In the values that rounding
  produces \<open>m < 2\<^sup>5\<^sup>3\<close>, \<open>-1074 \<le> e \<le> 971\<close>, and \<open>2\<^sup>5\<^sup>2 \<le> m\<close> unless \<open>e = -1074\<close>
  (zero and the subnormal numbers), so that a double has one representation.
\<close>

datatype float64 = Finite bool int int | Infinity bool | NaN

text \<open>The number of binary digits of a positive integer.\<close>

function bitlen :: "int \<Rightarrow> int" where
  "bitlen n = (if n \<le> 0 then 0 else 1 + bitlen (n div 2))"
  by pat_completeness auto
termination
  by (relation "measure nat") auto

declare bitlen.simps [simp del]

text \<open>\<open>\<lfloor>log\<^sub>2 (p / q)\<rfloor>\<close> for positive \<open>p\<close> and \<open>q\<close>.\<close>

definition floor_log2 :: "int \<Rightarrow> int \<Rightarrow> int" where
  "floor_log2 p q =
     (let k = bitlen p - bitlen q in
      if (if 0 \<le> k then q * 2 ^ nat k \<le> p else q \<le> p * 2 ^ nat (- k)) then k else k - 1)"

text \<open>The integer nearest to \<open>num / den\<close>, the even one of two that are equally near.\<close>

definition round_half_even :: "int \<Rightarrow> int \<Rightarrow> int" where
  "round_half_even num den =
     (let m = num div den; r = num mod den in
      if den < 2 * r \<or> (2 * r = den \<and> odd m) then m + 1 else m)"

text \<open>A significand that rounding carried to \<open>2\<^sup>5\<^sup>3\<close> moves to the next exponent.\<close>

definition pack :: "bool \<Rightarrow> int \<Rightarrow> int \<Rightarrow> float64" where
  "pack s m e =
     (if m = 2 ^ 53 then (if 970 < e then Infinity s else Finite s (2 ^ 52) (e + 1))
      else Finite s m e)"

definition round_at :: "bool \<Rightarrow> int \<Rightarrow> int \<Rightarrow> int \<Rightarrow> float64" where
  "round_at s p q e =
     pack s (if 0 \<le> e then round_half_even p (q * 2 ^ nat e)
             else round_half_even (p * 2 ^ nat (- e)) q) e"

text \<open>
  The double nearest to \<open>(-1)\<^sup>s * p / q\<close>, for \<open>0 \<le> p\<close> and \<open>0 < q\<close>: 53 significant bits,
  fewer below \<open>2\<^sup>-\<^sup>1\<^sup>0\<^sup>2\<^sup>2\<close>, infinity from \<open>2\<^sup>1\<^sup>0\<^sup>2\<^sup>4 - 2\<^sup>9\<^sup>7\<^sup>0\<close> on.
\<close>

definition round_nearest :: "bool \<Rightarrow> int \<Rightarrow> int \<Rightarrow> float64" where
  "round_nearest s p q =
     (if p = 0 then Finite s 0 (- 1074)
      else let l = floor_log2 p q in
        if 1023 < l then Infinity s else round_at s p q (max (l - 52) (- 1074)))"

definition round_scaled :: "bool \<Rightarrow> int \<Rightarrow> int \<Rightarrow> float64" where
  "round_scaled s m e =
     (if 0 \<le> e then round_nearest s (m * 2 ^ nat e) 1 else round_nearest s m (2 ^ nat (- e)))"

text \<open>A decimal literal \<open>p / q\<close> of the source text, as the parser reads it.\<close>

definition literal :: "int \<Rightarrow> int \<Rightarrow> float64" where
  "literal p q = round_nearest False p q"

fun fzero :: "float64 \<Rightarrow> bool" where
  "fzero (Finite s m e) = (m = 0)"
| "fzero _ = False"

fun fmul :: "float64 \<Rightarrow> float64 \<Rightarrow> float64" where
  "fmul NaN _ = NaN"
| "fmul _ NaN = NaN"
| "fmul (Infinity s) (Infinity t) = Infinity (s \<noteq> t)"
| "fmul (Infinity s) (Finite t n f) = (if n = 0 then NaN else Infinity (s \<noteq> t))"
| "fmul (Finite s m e) (Infinity t) = (if m = 0 then NaN else Infinity (s \<noteq> t))"
| "fmul (Finite s m e) (Finite t n f) = round_scaled (s \<noteq> t) (m * n) (e + f)"

fun fdiv :: "float64 \<Rightarrow> float64 \<Rightarrow> float64" where
  "fdiv NaN _ = NaN"
| "fdiv _ NaN = NaN"
| "fdiv (Infinity s) (Infinity t) = NaN"
| "fdiv (Infinity s) (Finite t n f) = Infinity (s \<noteq> t)"
| "fdiv (Finite s m e) (Infinity t) = Finite (s \<noteq> t) 0 (- 1074)"
| "fdiv (Finite s m e) (Finite t n f) =
     (if n = 0 then (if m = 0 then NaN else Infinity (s \<noteq> t))
      else if f \<le> e then round_nearest (s \<noteq> t) (m * 2 ^ nat (e - f)) n
      else round_nearest (s \<noteq> t) m (n * 2 ^ nat (f - e)))"

definition signed :: "bool \<Rightarrow> int \<Rightarrow> int" where
  "signed s m = (if s then - m else m)"

fun fadd :: "float64 \<Rightarrow> float64 \<Rightarrow> float64" where
  "fadd NaN _ = NaN"
| "fadd _ NaN = NaN"
| "fadd (Infinity s) (Infinity t) = (if s = t then Infinity s else NaN)"
| "fadd (Infinity s) (Finite t n f) = Infinity s"
| "fadd (Finite s m e) (Infinity t) = Infinity t"
| "fadd (Finite s m e) (Finite t n f) =
     (let g = min e f;
          v = signed s m * 2 ^ nat (e - g) + signed t n * 2 ^ nat (f - g)
      in if v = 0 then Finite (s \<and> t) 0 (- 1074) else round_scaled (v < 0) \<bar>v\<bar> g)"

subsection \<open>Python numbers and operators\<close>

datatype pynum = PyInt int | PyFloat float64

text \<open>\<^verbatim>\<open>x == 0\<close>\<close>

fun is_zero :: "pynum \<Rightarrow> bool" where
  "is_zero (PyInt i) = (i = 0)"
| "is_zero (PyFloat x) = fzero x"

text \<open>
  The conversion of an operand that meets a float: an int is rounded to the nearest
  double, and one that rounds beyond the largest double is an \<^verbatim>\<open>OverflowError\<close>.
\<close>

fun as_float :: "pynum \<Rightarrow> py_error + float64" where
  "as_float (PyFloat x) = Inr x"
| "as_float (PyInt i) =
     (case round_nearest (i < 0) \<bar>i\<bar> 1 of
        Infinity s \<Rightarrow> Inl OverflowError
      | x \<Rightarrow> Inr x)"

text \<open>\<^verbatim>\<open>a * b\<close>\<close>

fun py_mul :: "pynum \<Rightarrow> pynum \<Rightarrow> py_error + pynum" where
  "py_mul (PyInt a) (PyInt b) = Inr (PyInt (a * b))"
| "py_mul a b =
     py_then (as_float a) (\<lambda>x. py_then (as_float b) (\<lambda>y. Inr (PyFloat (fmul x y))))"

text \<open>\<^verbatim>\<open>a + b\<close>\<close>

fun py_add :: "pynum \<Rightarrow> pynum \<Rightarrow> py_error + pynum" where
  "py_add (PyInt a) (PyInt b) = Inr (PyInt (a + b))"
| "py_add a b =
     py_then (as_float a) (\<lambda>x. py_then (as_float b) (\<lambda>y. Inr (PyFloat (fadd x y))))"

text \<open>
  \<^verbatim>\<open>a / b\<close>: the quotient of two ints is the exact quotient rounded once, and an
  \<^verbatim>\<open>OverflowError\<close> when that is beyond the largest double; otherwise both operands
  are converted, and then the divisor is tested.
\<close>

fun py_truediv :: "pynum \<Rightarrow> pynum \<Rightarrow> py_error + pynum" where
  "py_truediv (PyInt a) (PyInt b) =
     (if b = 0 then Inl ZeroDivisionError
      else
        (case round_nearest ((a < 0) \<noteq> (b < 0)) \<bar>a\<bar> \<bar>b\<bar> of
           Infinity s \<Rightarrow> Inl OverflowError
         | x \<Rightarrow> Inr (PyFloat x)))"
| "py_truediv a b =
     py_then (as_float a) (\<lambda>x. py_then (as_float b) (\<lambda>y.
       if fzero y then Inl ZeroDivisionError else Inr (PyFloat (fdiv x y))))"

text \<open>
  \<^verbatim>\<open>a ** 2\<close>. For a float the interpreter answers the special cases itself (a NaN, an
  infinity, a zero, and 1 after the sign is dropped) and hands every other base to
  \<^verbatim>\<open>pow\<close> of the C library, whose last bit the language does not fix. That function
  is the parameter \<open>c_pow\<close>: \<open>c_pow x\<close> is \<open>None\<close> when the call ends in a range error,
  which the interpreter raises as \<^verbatim>\<open>OverflowError\<close>, and the square it returns
  otherwise.
\<close>

fun py_pow2 :: "(float64 \<Rightarrow> float64 option) \<Rightarrow> pynum \<Rightarrow> py_error + pynum" where
  "py_pow2 c_pow (PyInt a) = Inr (PyInt (a * a))"
| "py_pow2 c_pow (PyFloat NaN) = Inr (PyFloat NaN)"
| "py_pow2 c_pow (PyFloat (Infinity s)) = Inr (PyFloat (Infinity False))"
| "py_pow2 c_pow (PyFloat (Finite s m e)) =
     (if m = 0 then Inr (PyFloat (Finite False 0 (- 1074)))
      else if m = 2 ^ 52 \<and> e = - 52 then Inr (PyFloat (Finite False m e))
      else
        (case c_pow (Finite False m e) of
           None \<Rightarrow> Inl OverflowError
         | Some x \<Rightarrow> Inr (PyFloat x)))"

text \<open>
  A C library whose \<^verbatim>\<open>pow\<close> is correctly rounded at the exponent 2. It stands for
  the library wherever a property is evaluated on the sample data.
\<close>

definition pow_rounded :: "float64 \<Rightarrow> float64 option" where
  "pow_rounded x = (case fmul x x of Infinity s \<Rightarrow> None | y \<Rightarrow> Some y)"

subsection \<open>The dataclass InfoMessage\<close>

record info_message =
  training_type :: string
  duration :: pynum
  distance :: pynum
  speed :: pynum
  calories :: pynum

subsection \<open>The class Training and its three subclasses\<close>

text \<open>
  An object is its class together with the attributes that the \<^verbatim>\<open>__init__\<close> of that
  class stores, in the order of the constructor's parameters.
\<close>

datatype training =
    Training (action: pynum) (duration: pynum) (weight: pynum)
  | Running (action: pynum) (duration: pynum) (weight: pynum)
  | SportsWalking (action: pynum) (duration: pynum) (weight: pynum) (height: pynum)
  | Swimming (action: pynum) (duration: pynum) (weight: pynum)
      (length_pool: pynum) (count_pool: pynum)

text \<open>\<^verbatim>\<open>self.__class__.__name__\<close>\<close>

fun class_name :: "training \<Rightarrow> string" where
  "class_name (Training _ _ _) = ''Training''"
| "class_name (Running _ _ _) = ''Running''"
| "class_name (SportsWalking _ _ _ _) = ''SportsWalking''"
| "class_name (Swimming _ _ _ _ _) = ''Swimming''"

text \<open>
  Class attributes, looked up through the object: \<^verbatim>\<open>Swimming\<close> overrides
  \<^verbatim>\<open>LEN_STEP\<close>, every other class inherits the value of \<^verbatim>\<open>Training\<close>. A constant
  written without a decimal point is an int, whatever its annotation says.
  \<^verbatim>\<open>Running\<close> and \<^verbatim>\<open>Swimming\<close> each define a \<^verbatim>\<open>CALORIES_MEAN_SPEED_MULTIPLIER\<close>;
  the two carry the name of their class.
\<close>

fun LEN_STEP :: "training \<Rightarrow> pynum" where
  "LEN_STEP (Swimming _ _ _ _ _) = PyFloat (literal 138 100)"
| "LEN_STEP _ = PyFloat (literal 65 100)"

definition M_IN_KM :: pynum where
  "M_IN_KM = PyInt 1000"

definition MIN_IN_H :: pynum where
  "MIN_IN_H = PyInt 60"

definition Running_CALORIES_MEAN_SPEED_MULTIPLIER :: pynum where
  "Running_CALORIES_MEAN_SPEED_MULTIPLIER = PyInt 18"

definition CALORIES_MEAN_SPEED_SHIFT :: pynum where
  "CALORIES_MEAN_SPEED_SHIFT = PyFloat (literal 179 100)"

definition CALORIES_WEIGHT_MULTIPLIER :: pynum where
  "CALORIES_WEIGHT_MULTIPLIER = PyFloat (literal 35 1000)"

definition CALORIES_SPEED_HEIGHT_MULTIPLIER :: pynum where
  "CALORIES_SPEED_HEIGHT_MULTIPLIER = PyFloat (literal 29 1000)"

definition KMH_IN_MSEC :: pynum where
  "KMH_IN_MSEC = PyFloat (literal 278 1000)"

definition CM_IN_M :: pynum where
  "CM_IN_M = PyInt 100"

definition Swimming_CALORIES_MEAN_SPEED_MULTIPLIER :: pynum where
  "Swimming_CALORIES_MEAN_SPEED_MULTIPLIER = PyFloat (literal 11 10)"

definition CALORIES_WEIGHT_SHIFT :: pynum where
  "CALORIES_WEIGHT_SHIFT = PyInt 2"

subsection \<open>Method calls\<close>

text \<open>
  A method receives the object and hands it back next to its outcome, a value or the
  exception raised, so that an assignment to an attribute of \<^verbatim>\<open>self\<close> would show in
  the second component. \<open>py_bind\<close> runs a call and continues with its value on the
  object as the call left it; an exception ends the evaluation.
\<close>

type_synonym 'a outcome = "(py_error + 'a) \<times> training"

definition py_bind ::
  "(training \<Rightarrow> 'a outcome) \<Rightarrow> ('a \<Rightarrow> training \<Rightarrow> 'b outcome) \<Rightarrow> training \<Rightarrow> 'b outcome" where
  "py_bind m f self =
     (case m self of
        (Inl e, self') \<Rightarrow> (Inl e, self')
      | (Inr v, self') \<Rightarrow> f v self')"

text \<open>\<^verbatim>\<open>Training.get_distance\<close>; no subclass overrides it.\<close>

definition get_distance :: "training \<Rightarrow> pynum outcome" where
  "get_distance self =
     (py_then (py_mul (action self) (LEN_STEP self)) (\<lambda>x.
        py_truediv x M_IN_KM), self)"

text \<open>\<^verbatim>\<open>Training.get_mean_speed\<close>\<close>

definition Training_get_mean_speed :: "training \<Rightarrow> pynum outcome" where
  "Training_get_mean_speed =
     py_bind get_distance (\<lambda>d self. (py_truediv d (duration self), self))"

text \<open>\<^verbatim>\<open>Swimming.get_mean_speed\<close>\<close>

definition Swimming_get_mean_speed :: "training \<Rightarrow> pynum outcome" where
  "Swimming_get_mean_speed self =
     (py_then (py_mul (length_pool self) (count_pool self)) (\<lambda>x.
        py_then (py_truediv x M_IN_KM) (\<lambda>y.
          py_truediv y (duration self))), self)"

text \<open>The call \<^verbatim>\<open>self.get_mean_speed()\<close>, resolved by the class of the object.\<close>

fun get_mean_speed :: "training \<Rightarrow> pynum outcome" where
  "get_mean_speed (Swimming a d w lp cp) = Swimming_get_mean_speed (Swimming a d w lp cp)"
| "get_mean_speed self = Training_get_mean_speed self"

text \<open>\<^verbatim>\<open>Training.get_spent_calories\<close>\<close>

definition Training_get_spent_calories :: "training \<Rightarrow> pynum outcome" where
  \<open>Training_get_spent_calories self =
     (Inl (NotImplementedError
        (''In class "'' @ class_name self @ ''" ''
          @ ''is not implemented method ''
          @ ''"get_spent_calories"'')), self)\<close>

text \<open>
  \<^verbatim>\<open>Running.get_spent_calories\<close>: the operands are evaluated from left to right, the
  product \<^verbatim>\<open>self.duration * self.MIN_IN_H\<close> last.
\<close>

definition Running_get_spent_calories :: "training \<Rightarrow> pynum outcome" where
  "Running_get_spent_calories =
     py_bind get_mean_speed (\<lambda>mean_speed self.
       (py_then (py_mul Running_CALORIES_MEAN_SPEED_MULTIPLIER mean_speed) (\<lambda>x1.
        py_then (py_add x1 CALORIES_MEAN_SPEED_SHIFT) (\<lambda>x2.
        py_then (py_mul x2 (weight self)) (\<lambda>x3.
        py_then (py_truediv x3 M_IN_KM) (\<lambda>x4.
        py_then (py_mul (duration self) MIN_IN_H) (\<lambda>x5.
        py_mul x4 x5))))), self))"

text \<open>
  \<^verbatim>\<open>SportsWalking.get_spent_calories\<close>: the weight term is evaluated first, then the
  mean speed is asked for and squared, then the height is divided by \<^verbatim>\<open>CM_IN_M\<close>
  and the square by that quotient.
\<close>

definition SportsWalking_get_spent_calories ::
  "(float64 \<Rightarrow> float64 option) \<Rightarrow> training \<Rightarrow> pynum outcome" where
  "SportsWalking_get_spent_calories c_pow self0 =
     (case py_mul CALORIES_WEIGHT_MULTIPLIER (weight self0) of
        Inl e \<Rightarrow> (Inl e, self0)
      | Inr weight_term \<Rightarrow>
          py_bind get_mean_speed (\<lambda>mean_speed self.
            (py_then (py_mul mean_speed KMH_IN_MSEC) (\<lambda>x1.
             py_then (py_pow2 c_pow x1) (\<lambda>x2.
             py_then (py_truediv (height self) CM_IN_M) (\<lambda>x3.
             py_then (py_truediv x2 x3) (\<lambda>x4.
             py_then (py_mul x4 CALORIES_SPEED_HEIGHT_MULTIPLIER) (\<lambda>x5.
             py_then (py_mul x5 (weight self)) (\<lambda>x6.
             py_then (py_add weight_term x6) (\<lambda>x7.
             py_then (py_mul (duration self) MIN_IN_H) (\<lambda>x8.
             py_mul x7 x8)))))))), self)) self0)"

text \<open>\<^verbatim>\<open>Swimming.get_spent_calories\<close>\<close>

definition Swimming_get_spent_calories :: "training \<Rightarrow> pynum outcome" where
  "Swimming_get_spent_calories =
     py_bind get_mean_speed (\<lambda>mean_speed self.
       (py_then (py_add mean_speed Swimming_CALORIES_MEAN_SPEED_MULTIPLIER) (\<lambda>x1.
        py_then (py_mul x1 CALORIES_WEIGHT_SHIFT) (\<lambda>x2.
        py_then (py_mul x2 (weight self)) (\<lambda>x3.
        py_mul x3 (duration self)))), self))"

text \<open>The call \<^verbatim>\<open>self.get_spent_calories()\<close>, resolved by the class of the object.\<close>

fun get_spent_calories :: "(float64 \<Rightarrow> float64 option) \<Rightarrow> training \<Rightarrow> pynum outcome" where
  "get_spent_calories c_pow (Training a d w) = Training_get_spent_calories (Training a d w)"
| "get_spent_calories c_pow (Running a d w) = Running_get_spent_calories (Running a d w)"
| "get_spent_calories c_pow (SportsWalking a d w h) =
     SportsWalking_get_spent_calories c_pow (SportsWalking a d w h)"
| "get_spent_calories c_pow (Swimming a d w lp cp) =
     Swimming_get_spent_calories (Swimming a d w lp cp)"

text \<open>
  \<^verbatim>\<open>Training.show_training_info\<close>: the arguments of \<^verbatim>\<open>InfoMessage\<close> are evaluated
  from left to right, so the first call that raises decides the exception.
\<close>

definition show_training_info ::
  "(float64 \<Rightarrow> float64 option) \<Rightarrow> training \<Rightarrow> info_message outcome" where
  "show_training_info c_pow self0 =
     (let name = class_name self0; dur = duration self0 in
      py_bind get_distance (\<lambda>dist.
        py_bind get_mean_speed (\<lambda>mean_speed.
          py_bind (get_spent_calories c_pow) (\<lambda>cal self.
            (Inr \<lparr>training_type = name, duration = dur, distance = dist,
                  speed = mean_speed, calories = cal\<rparr>, self)))) self0)"

subsection \<open>The factory read_package\<close>

text \<open>
  A call \<^verbatim>\<open>cls(*data)\<close> binds the elements of the list to the parameters of
  \<^verbatim>\<open>__init__\<close> in order; a list of any other length is a \<^verbatim>\<open>TypeError\<close>.
\<close>

fun new_Running :: "pynum list \<Rightarrow> py_error + training" where
  "new_Running [a, d, w] = Inr (Running a d w)"
| "new_Running _ = Inl TypeError"

fun new_SportsWalking :: "pynum list \<Rightarrow> py_error + training" where
  "new_SportsWalking [a, d, w, h] = Inr (SportsWalking a d w h)"
| "new_SportsWalking _ = Inl TypeError"

fun new_Swimming :: "pynum list \<Rightarrow> py_error + training" where
  "new_Swimming [a, d, w, lp, cp] = Inr (Swimming a d w lp cp)"
| "new_Swimming _ = Inl TypeError"

definition types_training :: "string \<rightharpoonup> (pynum list \<Rightarrow> py_error + training)" where
  "types_training =
     [''WLK'' \<mapsto> new_SportsWalking, ''RUN'' \<mapsto> new_Running, ''SWM'' \<mapsto> new_Swimming]"

text \<open>
  The test \<^verbatim>\<open>workout_type in types_training\<close> and the lookup that follows it are one
  case distinction on the entry of the dictionary.
\<close>

definition read_package :: "string \<Rightarrow> pynum list \<Rightarrow> py_error + training" where
  \<open>read_package workout_type data =
     (case types_training workout_type of
        Some cls \<Rightarrow> cls data
      | None \<Rightarrow> Inl (ValueError (''Unknown type of training "'' @ workout_type @ ''"'')))\<close>

subsection \<open>The formulas of the specification\<close>

text \<open>
  The formulas of sections 4.1 to 4.4 of the specification, read in the arithmetic of
  the program: every operation is the binary64 operation.
\<close>

text \<open>\<open>action * stepLength / 1000\<close>\<close>

definition spec_distance :: "float64 \<Rightarrow> float64 \<Rightarrow> float64" where
  "spec_distance a step = fdiv (fmul a step) (literal 1000 1)"

text \<open>\<open>distance() / duration\<close>\<close>

definition spec_mean_speed :: "float64 \<Rightarrow> float64 \<Rightarrow> float64" where
  "spec_mean_speed dist d = fdiv dist d"

text \<open>\<open>(18 * meanSpeed() + 1.79) * weight / 1000 * (duration * 60)\<close>\<close>

definition spec_Running_calories :: "float64 \<Rightarrow> float64 \<Rightarrow> float64 \<Rightarrow> float64" where
  "spec_Running_calories ms w d60 =
     fmul (fdiv (fmul (fadd (fmul (literal 18 1) ms) (literal 179 100)) w) (literal 1000 1))
       d60"

text \<open>
  \<open>(0.035*weight + ((meanSpeed()*0.278)^2 / (height/100)) * 0.029 * weight)
    * (duration*60)\<close>, given the square and the quotient \<open>height/100\<close>
\<close>

definition spec_SportsWalking_calories ::
  "float64 \<Rightarrow> float64 \<Rightarrow> float64 \<Rightarrow> float64 \<Rightarrow> float64" where
  "spec_SportsWalking_calories sq hm w d60 =
     fmul (fadd (fmul (literal 35 1000) w)
                (fmul (fmul (fdiv sq hm) (literal 29 1000)) w))
       d60"

text \<open>\<open>(meanSpeed() + 1.1) * 2 * weight * duration\<close>\<close>

definition spec_Swimming_calories :: "float64 \<Rightarrow> float64 \<Rightarrow> float64 \<Rightarrow> float64" where
  "spec_Swimming_calories ms w d =
     fmul (fmul (fmul (fadd ms (literal 11 10)) (literal 2 1)) w) d"


section \<open>Properties\<close>

subsection \<open>Sequencing\<close>

lemma py_then_Inl [simp]: "py_then (Inl e) f = Inl e"
  by (simp add: py_then_def)

lemma py_then_Inr [simp]: "py_then (Inr v) f = f v"
  by (simp add: py_then_def)

lemma py_then_eq_Inr:
  "py_then r f = Inr y \<longleftrightarrow> (\<exists>v. r = Inr v \<and> f v = Inr y)"
  by (cases r) simp_all

lemma py_then_eq_Inl:
  "py_then r f = Inl e \<longleftrightarrow> r = Inl e \<or> (\<exists>v. r = Inr v \<and> f v = Inl e)"
  by (cases r) simp_all

subsection \<open>Conversion of ints\<close>

lemma bitlen_nonneg: "0 \<le> bitlen n"
proof (induction n rule: bitlen.induct)
  case (1 n)
  show ?case
  proof (cases "n \<le> 0")
    case True
    then show ?thesis by (subst bitlen.simps) simp
  next
    case False
    with "1" have "0 \<le> bitlen (n div 2)" by simp
    then show ?thesis using False by (subst bitlen.simps) simp
  qed
qed

lemma bitlen_step: "0 < n \<Longrightarrow> bitlen n = 1 + bitlen (n div 2)"
  by (subst bitlen.simps) simp

lemma bitlen_pos: "0 < n \<Longrightarrow> 0 < bitlen n"
  using bitlen_nonneg [of "n div 2"] by (simp add: bitlen_step)

lemma bitlen_lower: "0 < n \<Longrightarrow> 2 ^ nat (bitlen n - 1) \<le> n"
proof (induction n rule: bitlen.induct)
  case (1 n)
  from "1.prems" have step: "bitlen n - 1 = bitlen (n div 2)"
    by (simp add: bitlen_step)
  show ?case
  proof (cases "0 < n div 2")
    case True
    with "1" have ih: "2 ^ nat (bitlen (n div 2) - 1) \<le> n div 2" by simp
    from True have "0 < bitlen (n div 2)" by (rule bitlen_pos)
    then have "nat (bitlen (n div 2)) = Suc (nat (bitlen (n div 2) - 1))" by simp
    then have "(2::int) ^ nat (bitlen (n div 2)) = 2 * 2 ^ nat (bitlen (n div 2) - 1)"
      by simp
    also have "\<dots> \<le> 2 * (n div 2)" using ih by simp
    also have "\<dots> \<le> n" by simp
    finally show ?thesis by (simp only: step)
  next
    case False
    then have "bitlen (n div 2) = 0" by (subst bitlen.simps) simp
    with "1.prems" show ?thesis by (simp add: step)
  qed
qed

lemma bitlen_one: "bitlen 1 = 1"
  by (simp add: bitlen_step) (simp add: bitlen.simps)

lemma floor_log2_int:
  assumes "0 < p"
  shows "0 \<le> floor_log2 p 1 \<and> 2 ^ nat (floor_log2 p 1) \<le> p"
proof -
  from assms have "0 \<le> bitlen p - 1" using bitlen_pos [of p] by simp
  moreover from assms have "2 ^ nat (bitlen p - 1) \<le> p" by (rule bitlen_lower)
  ultimately show ?thesis by (simp add: floor_log2_def bitlen_one)
qed

lemma round_half_even_lower:
  assumes "0 < den" and "den \<le> num"
  shows "0 < round_half_even num den"
proof -
  from assms have "0 < num div den" by (simp add: pos_imp_zdiv_pos_iff)
  then show ?thesis by (simp add: round_half_even_def Let_def)
qed

lemma pack_not_zero: "0 < m \<Longrightarrow> \<not> fzero (pack s m e)"
  by (simp add: pack_def)

lemma round_nearest_int_not_zero:
  assumes "0 < p"
  shows "\<not> fzero (round_nearest s p 1)"
proof -
  from floor_log2_int [OF assms]
  have l: "0 \<le> floor_log2 p 1" and low: "2 ^ nat (floor_log2 p 1) \<le> p" by simp_all
  define e where "e = max (floor_log2 p 1 - 52) (- 1074)"
  have e: "e = floor_log2 p 1 - 52" using l by (simp add: e_def)
  have "0 < (if 0 \<le> e then round_half_even p (1 * 2 ^ nat e)
             else round_half_even (p * 2 ^ nat (- e)) 1)"
  proof (cases "0 \<le> e")
    case True
    have "(2::int) ^ nat e \<le> 2 ^ nat (floor_log2 p 1)"
      by (rule power_increasing) (simp_all add: e)
    from this low have "2 ^ nat e \<le> p" by (rule order_trans)
    then show ?thesis using True by (simp add: round_half_even_lower)
  next
    case False
    have "(1::int) \<le> 2 ^ nat (- e)" by simp
    with assms have "1 * 1 \<le> p * 2 ^ nat (- e)"
      by (intro mult_mono) simp_all
    then show ?thesis using False by (simp add: round_half_even_lower)
  qed
  then have "\<not> fzero (round_at s p 1 e)"
    unfolding round_at_def by (rule pack_not_zero)
  then show ?thesis using assms by (simp add: round_nearest_def Let_def e_def)
qed

lemma as_float_PyInt_Inr:
  "as_float (PyInt i) = Inr x \<Longrightarrow> x = round_nearest (i < 0) \<bar>i\<bar> 1"
  by (auto split: float64.splits)

lemma as_float_is_zero:
  assumes "as_float d = Inr x"
  shows "fzero x \<longleftrightarrow> is_zero d"
proof (cases d)
  case (PyFloat y)
  with assms show ?thesis by simp
next
  case (PyInt i)
  with assms have x: "x = round_nearest (i < 0) \<bar>i\<bar> 1"
    by (simp only: as_float_PyInt_Inr)
  show ?thesis
  proof (cases "i = 0")
    case True
    then show ?thesis by (simp add: x PyInt round_nearest_def)
  next
    case False
    then have "\<not> fzero (round_nearest (i < 0) \<bar>i\<bar> 1)"
      by (intro round_nearest_int_not_zero) simp
    then show ?thesis using False by (simp add: x PyInt)
  qed
qed

lemma as_float_error: "as_float a = Inl e \<Longrightarrow> e = OverflowError"
  by (cases a) (auto split: float64.splits)


lemma as_float_cases: "as_float a = Inl OverflowError \<or> (\<exists>x. as_float a = Inr x)"
  by (cases "as_float a") (auto dest: as_float_error)

declare as_float.simps(2) [simp del]

subsection \<open>Operators\<close>


lemma py_add_error: "py_add a b = Inl e \<Longrightarrow> e = OverflowError"
  by (cases a; cases b) (auto simp: py_then_eq_Inl dest: as_float_error)



lemma py_truediv_float: "py_truediv a b = Inr v \<Longrightarrow> \<exists>x. v = PyFloat x"
  by (cases a; cases b)
    (auto simp: py_then_eq_Inr split: if_splits float64.splits)

lemma py_pow2_float: "py_pow2 c_pow (PyFloat x) = Inr v \<Longrightarrow> \<exists>y. v = PyFloat y"
  by (cases x) (auto split: if_splits option.splits)



text \<open>The class constants that are ints, as floats.\<close>

lemma as_float_M_IN_KM: "as_float M_IN_KM = Inr (literal 1000 1)"
  by code_simp


lemma as_float_18: "as_float Running_CALORIES_MEAN_SPEED_MULTIPLIER = Inr (literal 18 1)"
  by code_simp

lemma as_float_2: "as_float CALORIES_WEIGHT_SHIFT = Inr (literal 2 1)"
  by code_simp

lemma as_float_MIN_IN_H: "as_float MIN_IN_H = Inr (literal 60 1)"
  by code_simp

lemma literal_1000_not_zero: "\<not> fzero (literal 1000 1)"
  by code_simp


lemma py_mul_float_left:
  "as_float b = Inr y \<Longrightarrow> py_mul (PyFloat x) b = Inr (PyFloat (fmul x y))"
  by simp

lemma py_mul_float_right:
  "as_float a = Inr x \<Longrightarrow> py_mul a (PyFloat y) = Inr (PyFloat (fmul x y))"
  by (cases a) simp_all

lemma py_mul_overflow_right:
  "as_float a = Inl OverflowError \<Longrightarrow> py_mul a (PyFloat y) = Inl OverflowError"
  by (cases a) simp_all

lemma py_add_float_left:
  "as_float b = Inr y \<Longrightarrow> py_add (PyFloat x) b = Inr (PyFloat (fadd x y))"
  by simp

lemma py_truediv_float_left:
  "as_float b = Inr y \<Longrightarrow> \<not> fzero y \<Longrightarrow>
   py_truediv (PyFloat x) b = Inr (PyFloat (fdiv x y))"
  by simp

lemma py_truediv_M_IN_KM:
  "py_truediv (PyFloat x) M_IN_KM = Inr (PyFloat (fdiv x (literal 1000 1)))"
  by (rule py_truediv_float_left [OF as_float_M_IN_KM literal_1000_not_zero])

declare py_mul.simps [simp del] py_add.simps [simp del] py_truediv.simps [simp del]

subsection \<open>Methods\<close>

lemma LEN_STEP_float: "\<exists>ls. LEN_STEP t = PyFloat ls"
  by (cases t) simp_all

lemma get_distance_value:
  assumes "as_float (action t) = Inr af" and "LEN_STEP t = PyFloat ls"
  shows "get_distance t = (Inr (PyFloat (spec_distance af ls)), t)"
  by (simp add: get_distance_def assms(2) py_mul_float_right [OF assms(1)]
      py_truediv_M_IN_KM spec_distance_def)

lemma get_distance_overflow:
  assumes "as_float (action t) = Inl OverflowError"
  shows "get_distance t = (Inl OverflowError, t)"
proof -
  from LEN_STEP_float obtain ls where "LEN_STEP t = PyFloat ls" ..
  then show ?thesis
    by (simp add: get_distance_def py_mul_overflow_right [OF assms])
qed

lemma get_distance_cases:
  "get_distance t = (Inl OverflowError, t) \<or> (\<exists>x. get_distance t = (Inr (PyFloat x), t))"
proof -
  from LEN_STEP_float obtain ls where ls: "LEN_STEP t = PyFloat ls" ..
  from as_float_cases [of "action t"] show ?thesis
    using get_distance_overflow [of t] get_distance_value [OF _ ls] by blast
qed

lemma Training_get_mean_speed_value:
  assumes "as_float (action t) = Inr af" and "LEN_STEP t = PyFloat ls"
    and "as_float (duration t) = Inr df" and "\<not> is_zero (duration t)"
  shows "Training_get_mean_speed t =
           (Inr (PyFloat (spec_mean_speed (spec_distance af ls) df)), t)"
proof -
  from assms(3,4) have "\<not> fzero df" by (simp add: as_float_is_zero)
  then show ?thesis
    by (simp add: Training_get_mean_speed_def py_bind_def
        get_distance_value [OF assms(1,2)] py_truediv_float_left [OF assms(3)]
        spec_mean_speed_def)
qed




lemma get_mean_speed_same_object: "snd (get_mean_speed t) = t"
proof (cases t)
  case (Swimming a d w lp cp)
  then show ?thesis by (simp add: Swimming_get_mean_speed_def)
qed (use get_distance_cases [of t] in
    \<open>auto simp: Training_get_mean_speed_def py_bind_def\<close>)

lemma get_mean_speed_pair: "get_mean_speed t = (fst (get_mean_speed t), t)"
  using get_mean_speed_same_object [of t] by (cases "get_mean_speed t") simp


lemma get_mean_speed_float:
  assumes "fst (get_mean_speed t) = Inr v"
  shows "\<exists>x. v = PyFloat x"
proof (cases t)
  case (Swimming a d w lp cp)
  with assms show ?thesis
    by (auto simp: Swimming_get_mean_speed_def py_then_eq_Inr dest: py_truediv_float)
qed (use assms get_distance_cases [of t] in
    \<open>auto simp: Training_get_mean_speed_def py_bind_def dest: py_truediv_float\<close>)

lemma py_bind_pair:
  "m self = (r, self) \<Longrightarrow>
   py_bind m f self = (case r of Inl e \<Rightarrow> (Inl e, self) | Inr v \<Rightarrow> f v self)"
  by (simp add: py_bind_def split: sum.split)

lemma get_spent_calories_same_object: "snd (get_spent_calories c_pow t) = t"
proof (cases t)
  case (Training a d w)
  then show ?thesis by (simp add: Training_get_spent_calories_def)
next
  case (Running a d w)
  then show ?thesis
    by (simp add: Running_get_spent_calories_def
        py_bind_pair [OF get_mean_speed_pair] split: sum.split)
next
  case (SportsWalking a d w h)
  then show ?thesis
    by (simp add: SportsWalking_get_spent_calories_def
        py_bind_pair [OF get_mean_speed_pair] split: sum.split)
next
  case (Swimming a d w lp cp)
  then show ?thesis
    by (simp add: Swimming_get_spent_calories_def
        py_bind_pair [OF get_mean_speed_pair] split: sum.split)
qed

lemma get_spent_calories_pair:
  "get_spent_calories c_pow t = (fst (get_spent_calories c_pow t), t)"
  using get_spent_calories_same_object [of c_pow t]
  by (cases "get_spent_calories c_pow t") simp

lemma get_distance_pair: "get_distance t = (fst (get_distance t), t)"
  by (simp add: get_distance_def)

lemma show_training_info_eq:
  "show_training_info c_pow t =
     (case fst (get_distance t) of
        Inl e \<Rightarrow> (Inl e, t)
      | Inr dist \<Rightarrow>
          (case fst (get_mean_speed t) of
             Inl e \<Rightarrow> (Inl e, t)
           | Inr s \<Rightarrow>
               (case fst (get_spent_calories c_pow t) of
                  Inl e \<Rightarrow> (Inl e, t)
                | Inr c \<Rightarrow>
                    (Inr \<lparr>training_type = class_name t, duration = duration t,
                          distance = dist, speed = s, calories = c\<rparr>, t))))"
  by (simp add: show_training_info_def py_bind_pair [OF get_distance_pair]
      py_bind_pair [OF get_mean_speed_pair] py_bind_pair [OF get_spent_calories_pair]
      split: sum.split)

lemma get_mean_speed_Swimming_value:
  assumes "py_then (py_mul lp cp) (\<lambda>x. py_truediv x M_IN_KM) = Inr (PyFloat q)"
    and "as_float d = Inr df" and "\<not> is_zero d"
  shows "get_mean_speed (Swimming a d w lp cp) =
           (Inr (PyFloat (spec_mean_speed q df)), Swimming a d w lp cp)"
proof -
  from assms(1) obtain x where x: "py_mul lp cp = Inr x"
    and q: "py_truediv x M_IN_KM = Inr (PyFloat q)"
    by (auto simp: py_then_eq_Inr)
  from assms(2,3) have "\<not> fzero df" by (simp add: as_float_is_zero)
  then show ?thesis
    by (simp add: Swimming_get_mean_speed_def x q py_truediv_float_left [OF assms(2)]
        spec_mean_speed_def)
qed

lemma duration_minutes:
  assumes "py_then (py_mul d MIN_IN_H) as_float = Inr d60"
  shows "py_then (py_mul d MIN_IN_H) (py_mul (PyFloat x)) = Inr (PyFloat (fmul x d60))"
proof -
  from assms obtain m where "py_mul d MIN_IN_H = Inr m" and "as_float m = Inr d60"
    by (auto simp: py_then_eq_Inr)
  then show ?thesis by (simp add: py_mul_float_left)
qed

lemma Running_get_spent_calories_value:
  assumes "get_mean_speed t = (Inr (PyFloat ms), t)" and "as_float (weight t) = Inr wv"
    and "py_then (py_mul (duration t) MIN_IN_H) as_float = Inr d60"
  shows "Running_get_spent_calories t = (Inr (PyFloat (spec_Running_calories ms wv d60)), t)"
proof -
  have "py_mul Running_CALORIES_MEAN_SPEED_MULTIPLIER (PyFloat ms) =
      Inr (PyFloat (fmul (literal 18 1) ms))"
    by (rule py_mul_float_right [OF as_float_18])
  then show ?thesis
    by (simp add: Running_get_spent_calories_def py_bind_def assms(1)
        CALORIES_MEAN_SPEED_SHIFT_def py_add_float_left
        py_mul_float_left [OF assms(2)] py_truediv_M_IN_KM
        duration_minutes [OF assms(3)] spec_Running_calories_def)
qed

lemma SportsWalking_get_spent_calories_value:
  assumes "get_mean_speed t = (Inr (PyFloat ms), t)" and "as_float (weight t) = Inr wv"
    and "py_pow2 c_pow (PyFloat (fmul ms (literal 278 1000))) = Inr (PyFloat sq)"
    and "py_truediv (height t) CM_IN_M = Inr (PyFloat hm)" and "\<not> fzero hm"
    and "py_then (py_mul (duration t) MIN_IN_H) as_float = Inr d60"
  shows "SportsWalking_get_spent_calories c_pow t =
           (Inr (PyFloat (spec_SportsWalking_calories sq hm wv d60)), t)"
  by (simp add: SportsWalking_get_spent_calories_def py_bind_def assms(1,3,4)
      CALORIES_WEIGHT_MULTIPLIER_def KMH_IN_MSEC_def CALORIES_SPEED_HEIGHT_MULTIPLIER_def
      py_mul_float_left py_add_float_left py_mul_float_left [OF assms(2)]
      py_truediv_float_left [of "PyFloat hm" hm] assms(5)
      duration_minutes [OF assms(6)] spec_SportsWalking_calories_def)

lemma Swimming_get_spent_calories_value:
  assumes "get_mean_speed t = (Inr (PyFloat ms), t)" and "as_float (weight t) = Inr wv"
    and "as_float (duration t) = Inr df"
  shows "Swimming_get_spent_calories t = (Inr (PyFloat (spec_Swimming_calories ms wv df)), t)"
  by (simp add: Swimming_get_spent_calories_def py_bind_def assms(1)
      Swimming_CALORIES_MEAN_SPEED_MULTIPLIER_def py_add_float_left
      py_mul_float_left [OF as_float_2] py_mul_float_left [OF assms(2)]
      py_mul_float_left [OF assms(3)] spec_Swimming_calories_def)



subsection \<open>The factory: lookup and arity\<close>

lemma read_package_RUN: "read_package ''RUN'' data = new_Running data"
  by (simp add: read_package_def types_training_def)

lemma read_package_WLK: "read_package ''WLK'' data = new_SportsWalking data"
  by (simp add: read_package_def types_training_def)

lemma read_package_SWM: "read_package ''SWM'' data = new_Swimming data"
  by (simp add: read_package_def types_training_def)

lemma new_Running_arity: "length data \<noteq> 3 \<Longrightarrow> new_Running data = Inl TypeError"
  by (induction data rule: new_Running.induct) simp_all

lemma new_SportsWalking_arity:
  "length data \<noteq> 4 \<Longrightarrow> new_SportsWalking data = Inl TypeError"
  by (induction data rule: new_SportsWalking.induct) simp_all

lemma new_Swimming_arity: "length data \<noteq> 5 \<Longrightarrow> new_Swimming data = Inl TypeError"
  by (induction data rule: new_Swimming.induct) simp_all

declare get_mean_speed.simps [simp del] get_spent_calories.simps [simp del]

subsection \<open>The claims\<close>

text \<open>
  C1 reads: for every action count the distance operation returns
  \<open>a * stepLength / 1000\<close>. An int of 401 digits is an action count, and the product
  with the step length raises \<^verbatim>\<open>OverflowError\<close>.
\<close>

theorem get_distance_huge_int_counterexample:
  "fst (get_distance (Running (PyInt (10 ^ 400)) (PyInt 1) (PyInt 75))) = Inl OverflowError"
  by code_simp

text \<open>
  C1, as the code has it. The distance operation evaluates \<open>a * stepLength / 1000\<close> in
  the arithmetic of the program, with step length 0.65 for Running and SportsWalking
  objects and 1.38 for Swimming objects: for an action count that is a float, or an
  int that converts to a float, it returns that float, product and quotient each
  rounded to the nearest double; for an int too large to convert it raises
  \<^verbatim>\<open>OverflowError\<close>. The call leaves the object as it was.
\<close>

theorem get_distance_step_length:
  "(as_float a = Inr x \<longrightarrow>
      get_distance (Running a d w) =
        (Inr (PyFloat (spec_distance x (literal 65 100))), Running a d w) \<and>
      get_distance (SportsWalking a d w h) =
        (Inr (PyFloat (spec_distance x (literal 65 100))), SportsWalking a d w h) \<and>
      get_distance (Swimming a d w lp cp) =
        (Inr (PyFloat (spec_distance x (literal 138 100))), Swimming a d w lp cp)) \<and>
   (as_float a = Inl OverflowError \<longrightarrow>
      get_distance (Running a d w) = (Inl OverflowError, Running a d w) \<and>
      get_distance (SportsWalking a d w h) = (Inl OverflowError, SportsWalking a d w h) \<and>
      get_distance (Swimming a d w lp cp) = (Inl OverflowError, Swimming a d w lp cp))"
  by (simp add: get_distance_value get_distance_overflow)

theorem get_distance_step_length_witness:
  "as_float (PyInt 720) = Inr (literal 720 1) \<and>
   get_distance (Running (PyInt 720) (PyInt 1) (PyInt 80)) =
     (Inr (PyFloat (literal 468 1000)), Running (PyInt 720) (PyInt 1) (PyInt 80)) \<and>
   get_distance (Swimming (PyInt 720) (PyInt 1) (PyInt 80) (PyInt 25) (PyInt 40)) =
     (Inr (PyFloat (literal 9935999999999999 10000000000000000)),
      Swimming (PyInt 720) (PyInt 1) (PyInt 80) (PyInt 25) (PyInt 40)) \<and>
   as_float (PyInt (10 ^ 400)) = Inl OverflowError \<and>
   get_distance (Running (PyInt (10 ^ 400)) (PyInt 1) (PyInt 80)) =
     (Inl OverflowError, Running (PyInt (10 ^ 400)) (PyInt 1) (PyInt 80))"
proof -
  have a: "as_float (PyInt 720) = Inr (literal 720 1)" by code_simp
  have b: "as_float (PyInt (10 ^ 400)) = Inl OverflowError" by code_simp
  have v: "spec_distance (literal 720 1) (literal 65 100) = literal 468 1000"
    "spec_distance (literal 720 1) (literal 138 100) =
       literal 9935999999999999 10000000000000000"
    by code_simp+
  show ?thesis
    using a b
      get_distance_step_length [where a = "PyInt 720" and x = "literal 720 1"
        and d = "PyInt 1" and w = "PyInt 80" and lp = "PyInt 25" and cp = "PyInt 40"]
      get_distance_step_length [where a = "PyInt (10 ^ 400)" and d = "PyInt 1"
        and w = "PyInt 80"]
    by (simp add: v)
qed




text \<open>
  C3 reads: for every SportsWalking object with a duration and a height other than
  zero the spent-calories operation returns the value of the formula. The smallest
  positive double is a height other than zero; its hundredth rounds to zero, and the
  division by it raises \<^verbatim>\<open>ZeroDivisionError\<close>.
\<close>

theorem SportsWalking_tiny_height_counterexample:
  "\<not> is_zero (PyInt 1) \<and> \<not> is_zero (PyFloat (Finite False 1 (- 1074))) \<and>
   fst (get_spent_calories pow_rounded
     (SportsWalking (PyInt 9000) (PyInt 1) (PyInt 75) (PyFloat (Finite False 1 (- 1074)))))
     = Inl ZeroDivisionError"
  by code_simp

text \<open>
  C3, as the code has it. For every SportsWalking object with a duration other than
  zero whose quotient \<open>height / 100\<close> is a double other than zero, whose square
  \<open>(mean_speed * 0.278) ** 2\<close> does not overflow, and whose action count, duration,
  weight and product \<open>duration * 60\<close> are floats or ints that convert to floats, the
  mean speed is the distance divided by the duration and the spent-calories operation
  returns
  \<open>(0.035 * weight + ((mean_speed * 0.278)^2 / (height / 100)) * 0.029 * weight)
    * (duration * 60)\<close>, every operation rounded to the nearest double and the square
  as the C library returns it.
\<close>

theorem SportsWalking_spent_calories_formula:
  assumes "as_float a = Inr af" and "as_float d = Inr df" and "\<not> is_zero d"
    and "as_float w = Inr wv"
    and "py_truediv h CM_IN_M = Inr (PyFloat hm)" and "\<not> fzero hm"
    and "py_pow2 c_pow
           (PyFloat (fmul (spec_mean_speed (spec_distance af (literal 65 100)) df)
                          (literal 278 1000))) = Inr (PyFloat sq)"
    and "py_then (py_mul d MIN_IN_H) as_float = Inr d60"
  shows "fst (get_mean_speed (SportsWalking a d w h)) =
           Inr (PyFloat (spec_mean_speed (spec_distance af (literal 65 100)) df)) \<and>
         fst (get_spent_calories c_pow (SportsWalking a d w h)) =
           Inr (PyFloat (spec_SportsWalking_calories sq hm wv d60))"
proof -
  let ?t = "SportsWalking a d w h"
  have ms: "get_mean_speed ?t =
      (Inr (PyFloat (spec_mean_speed (spec_distance af (literal 65 100)) df)), ?t)"
    using Training_get_mean_speed_value [of ?t af "literal 65 100" df] assms(1-3)
    by (simp add: get_mean_speed.simps)
  from SportsWalking_get_spent_calories_value [OF ms, of wv c_pow sq hm d60] assms(4-8)
  show ?thesis by (simp add: ms get_spent_calories.simps)
qed

theorem SportsWalking_spent_calories_formula_witness:
  "as_float (PyInt 9000) = Inr (literal 9000 1) \<and>
   as_float (PyInt 1) = Inr (literal 1 1) \<and> \<not> is_zero (PyInt 1) \<and>
   as_float (PyInt 75) = Inr (literal 75 1) \<and>
   py_truediv (PyInt 180) CM_IN_M = Inr (PyFloat (literal 18 10)) \<and>
   \<not> fzero (literal 18 10) \<and>
   py_pow2 pow_rounded (PyFloat (fmul (literal 585 100) (literal 278 1000))) =
     Inr (PyFloat (literal 26448516900000003 10000000000000000)) \<and>
   py_then (py_mul (PyInt 1) MIN_IN_H) as_float = Inr (literal 60 1) \<and>
   fst (get_mean_speed (SportsWalking (PyInt 9000) (PyInt 1) (PyInt 75) (PyInt 180))) =
     Inr (PyFloat (literal 585 100)) \<and>
   fst (get_spent_calories pow_rounded
          (SportsWalking (PyInt 9000) (PyInt 1) (PyInt 75) (PyInt 180))) =
     Inr (PyFloat (literal 3492517475250001 10000000000000))"
proof -
  have v: "spec_mean_speed (spec_distance (literal 9000 1) (literal 65 100)) (literal 1 1)
      = literal 585 100"
    "spec_SportsWalking_calories (literal 26448516900000003 10000000000000000)
       (literal 18 10) (literal 75 1) (literal 60 1) =
       literal 3492517475250001 10000000000000"
    by code_simp+
  have h: "as_float (PyInt 9000) = Inr (literal 9000 1)"
    "as_float (PyInt 1) = Inr (literal 1 1)" "\<not> is_zero (PyInt 1)"
    "as_float (PyInt 75) = Inr (literal 75 1)"
    "py_truediv (PyInt 180) CM_IN_M = Inr (PyFloat (literal 18 10))"
    "\<not> fzero (literal 18 10)"
    "py_pow2 pow_rounded (PyFloat (fmul (literal 585 100) (literal 278 1000))) =
       Inr (PyFloat (literal 26448516900000003 10000000000000000))"
    "py_then (py_mul (PyInt 1) MIN_IN_H) as_float = Inr (literal 60 1)"
    by code_simp+
  from SportsWalking_spent_calories_formula [OF h(1-6) h(7) [folded v(1)] h(8)]
  show ?thesis using h by (simp add: v)
qed

text \<open>
  C4 reads: for every Swimming object with a duration other than zero the mean-speed
  operation returns \<open>poolLength * lengthsCount / 1000 / duration\<close>. With duration 1,
  pool length 25 and a count that is an int of 401 digits the quotient by 1000 is
  beyond the largest double and the operation raises \<^verbatim>\<open>OverflowError\<close>.
\<close>

theorem Swimming_huge_count_counterexample:
  "\<not> is_zero (PyInt 1) \<and>
   fst (get_mean_speed
     (Swimming (PyInt 720) (PyInt 1) (PyInt 80) (PyInt 25) (PyInt (10 ^ 400))))
     = Inl OverflowError"
  by code_simp

text \<open>
  C4, as the code has it. For every Swimming object with a duration other than zero
  that is a float or an int that converts to a float, and for which
  \<open>length_pool * count_pool / 1000\<close> evaluates to a float \<open>q\<close> (no operand or
  quotient beyond the largest double), the mean-speed operation returns \<open>q / duration\<close>
  rounded to the nearest double. Two Swimming objects with the same pool length,
  number of lengths and duration have the same mean-speed outcome, whatever their
  action counts and weights are.
\<close>

theorem Swimming_mean_speed_formula:
  "(py_then (py_mul lp cp) (\<lambda>x. py_truediv x M_IN_KM) = Inr (PyFloat q) \<and>
    as_float d = Inr df \<and> \<not> is_zero d \<longrightarrow>
      get_mean_speed (Swimming a d w lp cp) =
        (Inr (PyFloat (spec_mean_speed q df)), Swimming a d w lp cp)) \<and>
   fst (get_mean_speed (Swimming a d w lp cp)) =
     fst (get_mean_speed (Swimming a' d w' lp cp))"
  by (simp add: get_mean_speed_Swimming_value)
    (simp add: get_mean_speed.simps Swimming_get_mean_speed_def)

theorem Swimming_mean_speed_formula_witness:
  "py_then (py_mul (PyInt 25) (PyInt 40)) (\<lambda>x. py_truediv x M_IN_KM) =
     Inr (PyFloat (literal 1 1)) \<and>
   as_float (PyInt 3) = Inr (literal 3 1) \<and> \<not> is_zero (PyInt 3) \<and>
   get_mean_speed (Swimming (PyInt 720) (PyInt 3) (PyInt 80) (PyInt 25) (PyInt 40)) =
     (Inr (PyFloat (literal 3333333333333333 10000000000000000)),
      Swimming (PyInt 720) (PyInt 3) (PyInt 80) (PyInt 25) (PyInt 40)) \<and>
   fst (get_mean_speed (Swimming (PyInt 720) (PyInt 3) (PyInt 80) (PyInt 25) (PyInt 40))) =
     fst (get_mean_speed (Swimming (PyInt 1500) (PyInt 3) (PyInt 60) (PyInt 25) (PyInt 40)))"
proof -
  have h: "py_then (py_mul (PyInt 25) (PyInt 40)) (\<lambda>x. py_truediv x M_IN_KM) =
      Inr (PyFloat (literal 1 1))"
    "as_float (PyInt 3) = Inr (literal 3 1)" "\<not> is_zero (PyInt 3)"
    by code_simp+
  have v: "spec_mean_speed (literal 1 1) (literal 3 1) =
      literal 3333333333333333 10000000000000000"
    by code_simp
  from Swimming_mean_speed_formula [where lp = "PyInt 25" and cp = "PyInt 40"
      and q = "literal 1 1" and d = "PyInt 3" and df = "literal 3 1"
      and a = "PyInt 720" and w = "PyInt 80" and a' = "PyInt 1500" and w' = "PyInt 60"]
  show ?thesis using h by (auto simp: v)
qed

text \<open>
  C5 reads: for every Swimming object with a duration other than zero the
  spent-calories operation returns the value of the formula. With duration 1, pool
  length 25 and a count that is an int of 401 digits the mean speed it asks for, and
  so the operation, raises \<^verbatim>\<open>OverflowError\<close>.
\<close>

theorem Swimming_calories_huge_count_counterexample:
  "\<not> is_zero (PyInt 1) \<and>
   fst (get_spent_calories pow_rounded
     (Swimming (PyInt 720) (PyInt 1) (PyInt 80) (PyInt 25) (PyInt (10 ^ 400))))
     = Inl OverflowError"
  by code_simp

text \<open>
  C5, as the code has it. For every Swimming object with a duration other than zero
  whose duration and weight are floats or ints that convert to floats, and for which
  \<open>length_pool * count_pool / 1000\<close> evaluates to a float \<open>q\<close>, the mean speed is
  \<open>q / duration\<close> and the spent-calories operation returns
  \<open>(mean_speed + 1.1) * 2 * weight * duration\<close>, every operation rounded to the nearest
  double (an infinity or a NaN where binary64 arithmetic gives one).
\<close>

theorem Swimming_spent_calories_formula:
  assumes "py_then (py_mul lp cp) (\<lambda>x. py_truediv x M_IN_KM) = Inr (PyFloat q)"
    and "as_float d = Inr df" and "\<not> is_zero d" and "as_float w = Inr wv"
  shows "fst (get_mean_speed (Swimming a d w lp cp)) =
           Inr (PyFloat (spec_mean_speed q df)) \<and>
         fst (get_spent_calories c_pow (Swimming a d w lp cp)) =
           Inr (PyFloat (spec_Swimming_calories (spec_mean_speed q df) wv df))"
proof -
  let ?t = "Swimming a d w lp cp"
  have ms: "get_mean_speed ?t = (Inr (PyFloat (spec_mean_speed q df)), ?t)"
    by (rule get_mean_speed_Swimming_value [OF assms(1-3)])
  from Swimming_get_spent_calories_value [OF ms, of wv df] assms(2,4)
  show ?thesis by (simp add: ms get_spent_calories.simps)
qed

theorem Swimming_spent_calories_formula_witness:
  "py_then (py_mul (PyInt 25) (PyInt 40)) (\<lambda>x. py_truediv x M_IN_KM) =
     Inr (PyFloat (literal 1 1)) \<and>
   as_float (PyInt 1) = Inr (literal 1 1) \<and> \<not> is_zero (PyInt 1) \<and>
   as_float (PyInt 80) = Inr (literal 80 1) \<and>
   fst (get_mean_speed (Swimming (PyInt 720) (PyInt 1) (PyInt 80) (PyInt 25) (PyInt 40))) =
     Inr (PyFloat (literal 1 1)) \<and>
   fst (get_spent_calories pow_rounded
          (Swimming (PyInt 720) (PyInt 1) (PyInt 80) (PyInt 25) (PyInt 40))) =
     Inr (PyFloat (literal 336 1))"
proof -
  have h: "py_then (py_mul (PyInt 25) (PyInt 40)) (\<lambda>x. py_truediv x M_IN_KM) =
      Inr (PyFloat (literal 1 1))"
    "as_float (PyInt 1) = Inr (literal 1 1)" "\<not> is_zero (PyInt 1)"
    "as_float (PyInt 80) = Inr (literal 80 1)"
    by code_simp+
  have v: "spec_mean_speed (literal 1 1) (literal 1 1) = literal 1 1"
    "spec_Swimming_calories (literal 1 1) (literal 80 1) (literal 1 1) = literal 336 1"
    by code_simp+
  from Swimming_spent_calories_formula [OF h, of "PyInt 720" pow_rounded]
  show ?thesis using h by (simp add: v)
qed

text \<open>
  C6 reads: for every code and every list of values, a valid code yields a calculator
  of the matching class. With a valid code and an empty list no calculator is
  returned: the constructor call raises.
\<close>

theorem read_package_wrong_arity_counterexample:
  "read_package ''RUN'' [] = Inl TypeError"
  by (simp add: read_package_RUN)

text \<open>
  C6, as the code has it. With the code \<^verbatim>\<open>RUN\<close>, \<^verbatim>\<open>WLK\<close> or \<^verbatim>\<open>SWM\<close> and a list of
  three, four or five values, \<open>read_package\<close> returns a Running, SportsWalking or
  Swimming object whose attributes are the values in order; with one of these codes and
  a list of any other length the constructor raises a \<^verbatim>\<open>TypeError\<close>; with any other
  code \<open>read_package\<close> raises a \<^verbatim>\<open>ValueError\<close> whose message contains the code, and
  that exception is the outcome the caller receives.
\<close>

theorem read_package_dispatch:
  \<open>read_package ''RUN'' [a, d, w] = Inr (Running a d w) \<and>
   read_package ''WLK'' [a, d, w, h] = Inr (SportsWalking a d w h) \<and>
   read_package ''SWM'' [a, d, w, lp, cp] = Inr (Swimming a d w lp cp) \<and>
   (length xs \<noteq> 3 \<longrightarrow> read_package ''RUN'' xs = Inl TypeError) \<and>
   (length ys \<noteq> 4 \<longrightarrow> read_package ''WLK'' ys = Inl TypeError) \<and>
   (length zs \<noteq> 5 \<longrightarrow> read_package ''SWM'' zs = Inl TypeError) \<and>
   (code \<notin> {''RUN'', ''WLK'', ''SWM''} \<longrightarrow>
      read_package code data =
        Inl (ValueError (''Unknown type of training "'' @ code @ ''"'')) \<and>
      sublist code (''Unknown type of training "'' @ code @ ''"''))\<close>
proof -
  have \<open>sublist code (''Unknown type of training "'' @ code @ ''"'')\<close>
    unfolding sublist_def by blast
  moreover have \<open>code \<notin> {''RUN'', ''WLK'', ''SWM''} \<Longrightarrow>
      read_package code data =
        Inl (ValueError (''Unknown type of training "'' @ code @ ''"''))\<close>
    by (simp add: read_package_def types_training_def)
  ultimately show ?thesis
    by (simp add: read_package_RUN read_package_WLK read_package_SWM new_Running_arity
        new_SportsWalking_arity new_Swimming_arity)
qed

theorem read_package_dispatch_witness:
  \<open>read_package ''RUN'' [PyInt 15000, PyInt 1, PyInt 75] =
     Inr (Running (PyInt 15000) (PyInt 1) (PyInt 75)) \<and>
   read_package ''WLK'' [PyInt 15000, PyInt 1, PyInt 75, PyInt 180] =
     Inr (SportsWalking (PyInt 15000) (PyInt 1) (PyInt 75) (PyInt 180)) \<and>
   read_package ''SWM'' [PyInt 15000, PyInt 1, PyInt 75, PyInt 25, PyInt 40] =
     Inr (Swimming (PyInt 15000) (PyInt 1) (PyInt 75) (PyInt 25) (PyInt 40)) \<and>
   length ([] :: pynum list) \<noteq> 3 \<and> read_package ''RUN'' [] = Inl TypeError \<and>
   length [PyInt 9000, PyInt 1, PyInt 75] \<noteq> 4 \<and>
   read_package ''WLK'' [PyInt 9000, PyInt 1, PyInt 75] = Inl TypeError \<and>
   length [PyInt 720, PyInt 1, PyInt 80, PyInt 25, PyInt 40, PyInt 0] \<noteq> 5 \<and>
   read_package ''SWM'' [PyInt 720, PyInt 1, PyInt 80, PyInt 25, PyInt 40, PyInt 0] =
     Inl TypeError \<and>
   ''BIKE'' \<notin> {''RUN'', ''WLK'', ''SWM''} \<and>
   read_package ''BIKE'' [PyInt 1, PyInt 2, PyInt 3] =
     Inl (ValueError ''Unknown type of training "BIKE"'') \<and>
   sublist ''BIKE'' ''Unknown type of training "BIKE"''\<close>
  using read_package_dispatch [where a = "PyInt 15000" and d = "PyInt 1"
      and w = "PyInt 75" and h = "PyInt 180" and lp = "PyInt 25" and cp = "PyInt 40"
      and xs = "[]" and ys = "[PyInt 9000, PyInt 1, PyInt 75]"
      and zs = "[PyInt 720, PyInt 1, PyInt 80, PyInt 25, PyInt 40, PyInt 0]"
      and code = "''BIKE''" and data = "[PyInt 1, PyInt 2, PyInt 3]"]
  by simp




text \<open>
  C8. On an object of the base class Training the spent-calories call raises
  \<^verbatim>\<open>NotImplementedError\<close>, with a message naming the class, and returns no value.
\<close>

theorem Training_spent_calories_not_implemented:
  \<open>get_spent_calories c_pow (Training a d w) =
     (Inl (NotImplementedError
        ''In class "Training" is not implemented method "get_spent_calories"''),
      Training a d w)\<close>
  by (simp add: get_spent_calories.simps Training_get_spent_calories_def)

text \<open>
  C9 reads: for every object of the three subclasses with a duration other than zero,
  two calls of the summary in succession yield two records with the same five fields.
  A SportsWalking object with duration 1 and height 0 yields no record: the call raises.
\<close>

theorem show_training_info_zero_height_counterexample:
  "\<not> is_zero (PyInt 1) \<and>
   fst (show_training_info pow_rounded
          (SportsWalking (PyInt 9000) (PyInt 1) (PyInt 75) (PyInt 0))) =
     Inl ZeroDivisionError"
  by code_simp

text \<open>
  C9, as the code has it. For every object of the three subclasses with a duration
  other than zero, the summary called twice in succession, the second time on the
  object as the first call left it, yields a record both times, equal in all five
  fields, provided the three computations return: the action count, the duration, the
  weight and the product \<open>duration * 60\<close> are floats or ints that convert to floats;
  for SportsWalking the quotient \<open>height / 100\<close> is a double other than zero and the
  square does not overflow; for Swimming \<open>length_pool * count_pool / 1000\<close> evaluates
  to a float. For every calculator whatever, the two calls end the same way: the
  record is built from the class name, the stored duration and the values of the
  distance, the mean speed and the spent calories when all three return, and when
  one of them raises both calls raise that exception.
\<close>

theorem show_training_info_twice:
  "fst (show_training_info c_pow (snd (show_training_info c_pow t))) =
     fst (show_training_info c_pow t) \<and>
   (fst (get_distance t) = Inr dist \<and> fst (get_mean_speed t) = Inr s \<and>
    fst (get_spent_calories c_pow t) = Inr c \<longrightarrow>
      fst (show_training_info c_pow t) =
        Inr \<lparr>training_type = class_name t, duration = duration t, distance = dist,
              speed = s, calories = c\<rparr>) \<and>
   (as_float a = Inr af \<and> as_float d = Inr df \<and> \<not> is_zero d \<and> as_float w = Inr wv \<and>
    py_then (py_mul d MIN_IN_H) as_float = Inr d60 \<longrightarrow>
      (\<exists>info. fst (show_training_info c_pow (Running a d w)) = Inr info \<and>
         fst (show_training_info c_pow (snd (show_training_info c_pow (Running a d w))))
           = Inr info)) \<and>
   (as_float a = Inr af \<and> as_float d = Inr df \<and> \<not> is_zero d \<and> as_float w = Inr wv \<and>
    py_then (py_mul d MIN_IN_H) as_float = Inr d60 \<and>
    py_truediv h CM_IN_M = Inr (PyFloat hm) \<and> \<not> fzero hm \<and>
    py_pow2 c_pow
      (PyFloat (fmul (spec_mean_speed (spec_distance af (literal 65 100)) df)
                     (literal 278 1000))) = Inr (PyFloat sq) \<longrightarrow>
      (\<exists>info. fst (show_training_info c_pow (SportsWalking a d w h)) = Inr info \<and>
         fst (show_training_info c_pow
               (snd (show_training_info c_pow (SportsWalking a d w h)))) = Inr info)) \<and>
   (as_float a = Inr af \<and> as_float d = Inr df \<and> \<not> is_zero d \<and> as_float w = Inr wv \<and>
    py_then (py_mul lp cp) (\<lambda>x. py_truediv x M_IN_KM) = Inr (PyFloat q) \<longrightarrow>
      (\<exists>info. fst (show_training_info c_pow (Swimming a d w lp cp)) = Inr info \<and>
         fst (show_training_info c_pow
               (snd (show_training_info c_pow (Swimming a d w lp cp)))) = Inr info))"
proof -
  have same: "snd (show_training_info c_pow u) = u" for u
    by (simp add: show_training_info_eq split: sum.split)
  have twice: "\<exists>info. fst (show_training_info c_pow u) = Inr info \<and>
      fst (show_training_info c_pow (snd (show_training_info c_pow u))) = Inr info"
    if "get_distance u = (Inr x, u)" and "get_mean_speed u = (Inr y, u)"
      and "get_spent_calories c_pow u = (Inr z, u)" for u x y z
    using that by (simp add: same) (simp add: show_training_info_eq)
  have r: "\<exists>info. fst (show_training_info c_pow (Running a d w)) = Inr info \<and>
      fst (show_training_info c_pow (snd (show_training_info c_pow (Running a d w))))
        = Inr info"
    if h: "as_float a = Inr af" "as_float d = Inr df" "\<not> is_zero d" "as_float w = Inr wv"
      "py_then (py_mul d MIN_IN_H) as_float = Inr d60"
  proof -
    let ?t = "Running a d w"
    have ms: "get_mean_speed ?t =
        (Inr (PyFloat (spec_mean_speed (spec_distance af (literal 65 100)) df)), ?t)"
      using Training_get_mean_speed_value [of ?t af "literal 65 100" df] h(1-3)
      by (simp add: get_mean_speed.simps)
    have dist: "get_distance ?t = (Inr (PyFloat (spec_distance af (literal 65 100))), ?t)"
      using get_distance_value [of ?t af "literal 65 100"] h(1) by simp
    from Running_get_spent_calories_value [OF ms, of wv d60] h(4,5)
    have cal: "get_spent_calories c_pow ?t =
        (Inr (PyFloat (spec_Running_calories
           (spec_mean_speed (spec_distance af (literal 65 100)) df) wv d60)), ?t)"
      by (simp add: get_spent_calories.simps)
    show ?thesis by (rule twice [OF dist ms cal])
  qed
  have k: "\<exists>info. fst (show_training_info c_pow (SportsWalking a d w h)) = Inr info \<and>
      fst (show_training_info c_pow
            (snd (show_training_info c_pow (SportsWalking a d w h)))) = Inr info"
    if h: "as_float a = Inr af" "as_float d = Inr df" "\<not> is_zero d" "as_float w = Inr wv"
      "py_then (py_mul d MIN_IN_H) as_float = Inr d60"
      "py_truediv h CM_IN_M = Inr (PyFloat hm)" "\<not> fzero hm"
      "py_pow2 c_pow
         (PyFloat (fmul (spec_mean_speed (spec_distance af (literal 65 100)) df)
                        (literal 278 1000))) = Inr (PyFloat sq)"
  proof -
    let ?t = "SportsWalking a d w h"
    have ms: "get_mean_speed ?t =
        (Inr (PyFloat (spec_mean_speed (spec_distance af (literal 65 100)) df)), ?t)"
      using Training_get_mean_speed_value [of ?t af "literal 65 100" df] h(1-3)
      by (simp add: get_mean_speed.simps)
    have dist: "get_distance ?t = (Inr (PyFloat (spec_distance af (literal 65 100))), ?t)"
      using get_distance_value [of ?t af "literal 65 100"] h(1) by simp
    from SportsWalking_get_spent_calories_value [OF ms, of wv c_pow sq hm d60]
      h(4-8)
    have cal: "get_spent_calories c_pow ?t =
        (Inr (PyFloat (spec_SportsWalking_calories sq hm wv d60)), ?t)"
      by (simp add: get_spent_calories.simps)
    show ?thesis by (rule twice [OF dist ms cal])
  qed
  have m: "\<exists>info. fst (show_training_info c_pow (Swimming a d w lp cp)) = Inr info \<and>
      fst (show_training_info c_pow
            (snd (show_training_info c_pow (Swimming a d w lp cp)))) = Inr info"
    if h: "as_float a = Inr af" "as_float d = Inr df" "\<not> is_zero d" "as_float w = Inr wv"
      "py_then (py_mul lp cp) (\<lambda>x. py_truediv x M_IN_KM) = Inr (PyFloat q)"
  proof -
    let ?t = "Swimming a d w lp cp"
    have ms: "get_mean_speed ?t = (Inr (PyFloat (spec_mean_speed q df)), ?t)"
      by (rule get_mean_speed_Swimming_value [OF h(5) h(2,3)])
    have dist: "get_distance ?t = (Inr (PyFloat (spec_distance af (literal 138 100))), ?t)"
      using get_distance_value [of ?t af "literal 138 100"] h(1) by simp
    from Swimming_get_spent_calories_value [OF ms, of wv df] h(2,4)
    have cal: "get_spent_calories c_pow ?t =
        (Inr (PyFloat (spec_Swimming_calories (spec_mean_speed q df) wv df)), ?t)"
      by (simp add: get_spent_calories.simps)
    show ?thesis by (rule twice [OF dist ms cal])
  qed
  have first: "fst (show_training_info c_pow (snd (show_training_info c_pow t))) =
      fst (show_training_info c_pow t)"
    by (simp add: same)
  have second: "fst (show_training_info c_pow t) =
      Inr \<lparr>training_type = class_name t, duration = duration t, distance = dist,
            speed = s, calories = c\<rparr>"
    if "fst (get_distance t) = Inr dist" "fst (get_mean_speed t) = Inr s"
      "fst (get_spent_calories c_pow t) = Inr c"
    using that by (simp add: show_training_info_eq)
  from first second r k m show ?thesis by blast
qed

theorem show_training_info_twice_witness:
  "fst (get_distance (SportsWalking (PyInt 9000) (PyInt 1) (PyInt 75) (PyInt 180))) =
     Inr (PyFloat (literal 585 100)) \<and>
   fst (get_mean_speed (SportsWalking (PyInt 9000) (PyInt 1) (PyInt 75) (PyInt 180))) =
     Inr (PyFloat (literal 585 100)) \<and>
   fst (get_spent_calories pow_rounded
          (SportsWalking (PyInt 9000) (PyInt 1) (PyInt 75) (PyInt 180))) =
     Inr (PyFloat (literal 3492517475250001 10000000000000)) \<and>
   fst (show_training_info pow_rounded
          (SportsWalking (PyInt 9000) (PyInt 1) (PyInt 75) (PyInt 180))) =
     Inr \<lparr>training_type = ''SportsWalking'', duration = PyInt 1,
           distance = PyFloat (literal 585 100), speed = PyFloat (literal 585 100),
           calories = PyFloat (literal 3492517475250001 10000000000000)\<rparr> \<and>
   fst (show_training_info pow_rounded (snd (show_training_info pow_rounded
          (SportsWalking (PyInt 9000) (PyInt 1) (PyInt 75) (PyInt 180))))) =
     fst (show_training_info pow_rounded
          (SportsWalking (PyInt 9000) (PyInt 1) (PyInt 75) (PyInt 180))) \<and>
   as_float (PyInt 9000) = Inr (literal 9000 1) \<and>
   as_float (PyInt 1) = Inr (literal 1 1) \<and> \<not> is_zero (PyInt 1) \<and>
   as_float (PyInt 75) = Inr (literal 75 1) \<and>
   py_then (py_mul (PyInt 1) MIN_IN_H) as_float = Inr (literal 60 1) \<and>
   py_truediv (PyInt 180) CM_IN_M = Inr (PyFloat (literal 18 10)) \<and>
   \<not> fzero (literal 18 10) \<and>
   py_pow2 pow_rounded (PyFloat (fmul (literal 585 100) (literal 278 1000))) =
     Inr (PyFloat (literal 26448516900000003 10000000000000000)) \<and>
   py_then (py_mul (PyInt 25) (PyInt 40)) (\<lambda>x. py_truediv x M_IN_KM) =
     Inr (PyFloat (literal 1 1)) \<and>
   (\<exists>info. fst (show_training_info pow_rounded
                 (Running (PyInt 9000) (PyInt 1) (PyInt 75))) = Inr info) \<and>
   (\<exists>info. fst (show_training_info pow_rounded
                 (SportsWalking (PyInt 9000) (PyInt 1) (PyInt 75) (PyInt 180))) = Inr info) \<and>
   (\<exists>info. fst (show_training_info pow_rounded
                 (Swimming (PyInt 9000) (PyInt 1) (PyInt 75) (PyInt 25) (PyInt 40)))
              = Inr info)"
proof -
  let ?t = "SportsWalking (PyInt 9000) (PyInt 1) (PyInt 75) (PyInt 180)"
  have v: "spec_mean_speed (spec_distance (literal 9000 1) (literal 65 100)) (literal 1 1)
      = literal 585 100"
    by code_simp
  have g: "fst (get_distance ?t) = Inr (PyFloat (literal 585 100))"
    "fst (get_mean_speed ?t) = Inr (PyFloat (literal 585 100))"
    "fst (get_spent_calories pow_rounded ?t) =
       Inr (PyFloat (literal 3492517475250001 10000000000000))"
    by code_simp+
  have h: "as_float (PyInt 9000) = Inr (literal 9000 1)"
    "as_float (PyInt 1) = Inr (literal 1 1)" "\<not> is_zero (PyInt 1)"
    "as_float (PyInt 75) = Inr (literal 75 1)"
    "py_then (py_mul (PyInt 1) MIN_IN_H) as_float = Inr (literal 60 1)"
    "py_truediv (PyInt 180) CM_IN_M = Inr (PyFloat (literal 18 10))"
    "\<not> fzero (literal 18 10)"
    "py_pow2 pow_rounded (PyFloat (fmul (literal 585 100) (literal 278 1000))) =
       Inr (PyFloat (literal 26448516900000003 10000000000000000))"
    "py_then (py_mul (PyInt 25) (PyInt 40)) (\<lambda>x. py_truediv x M_IN_KM) =
       Inr (PyFloat (literal 1 1))"
    by code_simp+
  from show_training_info_twice [where c_pow = pow_rounded and t = ?t
      and dist = "PyFloat (literal 585 100)" and s = "PyFloat (literal 585 100)"
      and c = "PyFloat (literal 3492517475250001 10000000000000)"
      and a = "PyInt 9000" and af = "literal 9000 1" and d = "PyInt 1"
      and df = "literal 1 1" and w = "PyInt 75" and wv = "literal 75 1"
      and ?d60.0 = "literal 60 1" and h = "PyInt 180" and hm = "literal 18 10"
      and sq = "literal 26448516900000003 10000000000000000"
      and lp = "PyInt 25" and cp = "PyInt 40" and q = "literal 1 1"]
  show ?thesis using g h by (simp add: v) blast
qed

text \<open>
  C10. The summary leaves the object as it was: every stored attribute (action,
  duration, weight, and height, length_pool, count_pool where the class has them) and
  the class are the same after the call as before, also when the call raises.
\<close>

theorem show_training_info_same_object: "snd (show_training_info c_pow t) = t"
  by (simp add: show_training_info_eq split: sum.split)

end
